theory Spec2Isabelle
  imports Complex_Main "HOL-Library.Monad_Syntax"
begin

section \<open>The retirement-corpus projection engine\<close>

text \<open>
  A shallow embedding of \<^verbatim>\<open>src/utils/formatters.ts\<close> and \<^verbatim>\<open>src/types.ts\<close>.

  Numbers. The three age fields are whole years (the sliders of \<^verbatim>\<open>src/App.tsx\<close> step by
  one), so they are \<^typ>\<open>int\<close>. Every other quantity of the engine is a finite number and is
  modelled as a \<^typ>\<open>real\<close>: the arithmetic is exact, the rounding of IEEE doubles is not
  modelled. A JavaScript division by zero, or \<^verbatim>\<open>Math.pow(0, e)\<close> with \<open>e < 0\<close>, does
  not raise: it yields \<^verbatim>\<open>Infinity\<close> or \<^verbatim>\<open>NaN\<close>, which no real number stands for. The
  model therefore makes both operations partial, and the engine returns \<open>None\<close> exactly when
  it performs one of them with a zero divisor. Where the engine returns \<open>Some r\<close>, every
  intermediate value of the source is finite and \<open>r\<close> is the record the source returns.
\<close>

subsection \<open>Data model (\<^verbatim>\<open>src/types.ts\<close>)\<close>

record CalculatorState =
  currentAge :: int
  retirementAge :: int
  lifeExpectancy :: int
  currentMonthlyExpenses :: real
  lifestyleFactor :: real
  existingSavings :: real
  assumedInflation :: real
  postRetirementROI :: real
  specificGoals :: string

record ChartPoint =
  age :: int
  balance :: int
  expenses :: int

record CalculationResult =
  yearsToRetirement :: int
  yearsInRetirement :: int
  monthlyExpenseAtRetirement :: real
  requiredCorpus :: real
  projectedExistingSavings :: real
  gap :: real
  chartData :: "ChartPoint list"

subsection \<open>Arithmetic that can leave the finite numbers\<close>

definition js_div :: "real \<Rightarrow> real \<Rightarrow> real option" where
  "js_div x y = (if y = 0 then None else Some (x / y))"

definition Math_pow :: "real \<Rightarrow> int \<Rightarrow> real option" where
  "Math_pow b e = (if b = 0 \<and> e < 0 then None else Some (b powi e))"

subsection \<open>The chart loop (\<^verbatim>\<open>formatters.ts\<close>, lines 83 to 110)\<close>

text \<open>
  The \<^verbatim>\<open>for\<close> loop over \<open>year\<close>, with the two mutable variables \<open>currentBalance\<close> and
  \<open>currentAnnualExpense\<close> passed as arguments. \<^verbatim>\<open>chartData.push\<close> appends, so the point of the
  current iteration is the head of what the remaining iterations produce. \<^verbatim>\<open>Math.round\<close>
  is \<open>\<lfloor>x + 1/2\<rfloor>\<close>, which is \<^const>\<open>round\<close>.
\<close>

function chart_loop ::
  "int \<Rightarrow> int \<Rightarrow> int \<Rightarrow> real \<Rightarrow> real \<Rightarrow> int \<Rightarrow> real \<Rightarrow> real \<Rightarrow> ChartPoint list" where
  "chart_loop retAge lifeExp yearsInRet roiRate inflationRate year currentBalance currentAnnualExpense =
     (if year \<le> yearsInRet + 5 then
        (let a = retAge + year in
         if a > lifeExp + 5 then []
         else \<lparr>age = a,
               balance = max 0 (round currentBalance),
               expenses = round currentAnnualExpense\<rparr> #
              (if a < lifeExp then
                 (let growth = currentBalance * roiRate in
                  chart_loop retAge lifeExp yearsInRet roiRate inflationRate (year + 1)
                    (currentBalance + growth - currentAnnualExpense)
                    (currentAnnualExpense * (1 + inflationRate)))
               else
                 chart_loop retAge lifeExp yearsInRet roiRate inflationRate (year + 1)
                   0 currentAnnualExpense))
      else [])"
  by pat_completeness auto
termination
  by (relation "measure (\<lambda>(retAge, lifeExp, yearsInRet, roiRate, inflationRate, year, b, e).
                  nat (yearsInRet + 6 - year))") auto

declare chart_loop.simps [simp del]

subsection \<open>The engine (\<^verbatim>\<open>formatters.ts\<close>, lines 20 to 121)\<close>

definition calculateRetirementMetrics :: "CalculatorState \<Rightarrow> CalculationResult option" where
  "calculateRetirementMetrics state = do {
     let inflationRate = assumedInflation state / 100;
     let roiRate = postRetirementROI state;
     let yearsToRetirement = max 0 (retirementAge state - currentAge state);
     let yearsInRetirement = max 0 (lifeExpectancy state - retirementAge state);
     let adjustedBaseMonthly = currentMonthlyExpenses state * lifestyleFactor state;
     inflationGrowth \<leftarrow> Math_pow (1 + inflationRate) yearsToRetirement;
     let monthlyExpenseAtRetirement = adjustedBaseMonthly * inflationGrowth;
     let annualExpenseAtRetirement = monthlyExpenseAtRetirement * 12;
     realReturn \<leftarrow> js_div (1 + roiRate) (1 + inflationRate);
     let realRate = realReturn - 1;
     requiredCorpus \<leftarrow>
       (if yearsInRetirement > 0 then
          if \<bar>realRate\<bar> < 0.0001 then
            Some (annualExpenseAtRetirement * of_int yearsInRetirement)
          else do {
            discount \<leftarrow> Math_pow (1 + realRate) (- yearsInRetirement);
            annuityFactor \<leftarrow> js_div (1 - discount) realRate;
            Some (annualExpenseAtRetirement * annuityFactor)
          }
        else Some 0);
     let accumulationRate = 0.10;
     accumulationGrowth \<leftarrow> Math_pow (1 + accumulationRate) yearsToRetirement;
     let projectedExistingSavings = existingSavings state * accumulationGrowth;
     let gap = max 0 (requiredCorpus - projectedExistingSavings);
     let chartData = chart_loop (retirementAge state) (lifeExpectancy state) yearsInRetirement
                       roiRate inflationRate 0 requiredCorpus annualExpenseAtRetirement;
     Some \<lparr>yearsToRetirement = yearsToRetirement,
           yearsInRetirement = yearsInRetirement,
           monthlyExpenseAtRetirement = monthlyExpenseAtRetirement,
           requiredCorpus = requiredCorpus,
           projectedExistingSavings = projectedExistingSavings,
           gap = gap,
           chartData = chartData\<rparr>
   }"

subsection \<open>The trajectory recurrence, as the specification words it\<close>




subsection \<open>The annuity factor\<close>


subsection \<open>Currency formatting (\<^verbatim>\<open>formatters.ts\<close>, lines 1 to 8)\<close>

text \<open>
  \<^verbatim>\<open>formatINR\<close> takes any JavaScript number, also a non-finite one, so its argument is a
  finite real or one of the three non-finite values. Strings are byte lists in UTF-8: the
  rupee sign U+20B9 and the infinity sign U+221E are three bytes each.
\<close>

datatype jsnumber = Finite real | PosInfinity | NegInfinity | NaN

definition isNaN :: "jsnumber \<Rightarrow> bool" where
  "isNaN x = (case x of NaN \<Rightarrow> True | _ \<Rightarrow> False)"

definition rupee :: string where
  "rupee = [CHR 0xE2, CHR 0x82, CHR 0xB9]"

definition infinity_sign :: string where
  "infinity_sign = [CHR 0xE2, CHR 0x88, CHR 0x9E]"

text \<open>
  \<^verbatim>\<open>Intl.NumberFormat('en-IN', {style: 'currency', currency: 'INR', maximumFractionDigits: 0})\<close>
  belongs to the JavaScript platform, not to the repository. Its \<^verbatim>\<open>format\<close> is modelled
  after ECMA-402 and the \<^verbatim>\<open>en-IN\<close> locale data: a finite amount is rounded to a whole number,
  half away from zero, and written with the rupee sign and Indian digit grouping (the last
  three digits, then groups of two), a negative amount with a leading minus sign; the
  infinities are written with the infinity sign and NaN as \<^verbatim>\<open>NaN\<close>, each after the rupee sign.
\<close>

fun decimal :: "nat \<Rightarrow> string" where
  "decimal n =
     (if n < 10 then [''0123456789'' ! n]
      else decimal (n div 10) @ [''0123456789'' ! (n mod 10)])"

declare decimal.simps [simp del]

fun pairs_rev :: "string \<Rightarrow> string" where
  "pairs_rev (a # b # c # cs) = a # b # CHR '','' # pairs_rev (c # cs)"
| "pairs_rev cs = cs"

definition group_en_IN :: "string \<Rightarrow> string" where
  "group_en_IN ds =
     (if length ds \<le> 3 then ds
      else rev (take 3 (rev ds) @ CHR '','' # pairs_rev (drop 3 (rev ds))))"

definition Intl_NumberFormat_format :: "jsnumber \<Rightarrow> string" where
  "Intl_NumberFormat_format x =
     (case x of
        Finite v \<Rightarrow>
          (if v < 0 then ''-'' else []) @ rupee @ group_en_IN (decimal (nat (round \<bar>v\<bar>)))
      | PosInfinity \<Rightarrow> rupee @ infinity_sign
      | NegInfinity \<Rightarrow> ''-'' @ rupee @ infinity_sign
      | NaN \<Rightarrow> rupee @ ''NaN'')"

definition formatINR :: "jsnumber \<Rightarrow> string" where
  "formatINR amount =
     (if isNaN amount then rupee @ ''0'' else Intl_NumberFormat_format amount)"

subsection \<open>Concrete inputs\<close>

text \<open>The scenario of the specification's section 8.\<close>

definition scenario :: CalculatorState where
  "scenario =
     \<lparr>currentAge = 45, retirementAge = 55, lifeExpectancy = 85,
      currentMonthlyExpenses = 100000, lifestyleFactor = 1, existingSavings = 5000000,
      assumedInflation = 6, postRetirementROI = 0.08, specificGoals = []\<rparr>"







section \<open>Properties of the engine\<close>

subsection \<open>What the engine returns, field by field\<close>

lemma calc_Some_fields:
  assumes "calculateRetirementMetrics st = Some r"
  shows "yearsToRetirement r = max 0 (retirementAge st - currentAge st)"
    and "yearsInRetirement r = max 0 (lifeExpectancy st - retirementAge st)"
    and "monthlyExpenseAtRetirement r = currentMonthlyExpenses st * lifestyleFactor st *
           (1 + assumedInflation st / 100) powi (max 0 (retirementAge st - currentAge st))"
    and "projectedExistingSavings r =
           existingSavings st * (11 / 10) powi (max 0 (retirementAge st - currentAge st))"
    and "gap r = max 0 (requiredCorpus r - projectedExistingSavings r)"
    and "chartData r = chart_loop (retirementAge st) (lifeExpectancy st)
           (max 0 (lifeExpectancy st - retirementAge st)) (postRetirementROI st)
           (assumedInflation st / 100) 0 (requiredCorpus r) (monthlyExpenseAtRetirement r * 12)"
  using assms
  by (auto simp: calculateRetirementMetrics_def Let_def js_div_def Math_pow_def
           split: if_splits Option.bind_splits)

lemma calc_Some_requiredCorpus:
  assumes "calculateRetirementMetrics st = Some r"
  shows "requiredCorpus r =
     (if max 0 (lifeExpectancy st - retirementAge st) = 0 then 0
      else if \<bar>(1 + postRetirementROI st) / (1 + assumedInflation st / 100) - 1\<bar> < 0.0001
      then monthlyExpenseAtRetirement r * 12 * of_int (max 0 (lifeExpectancy st - retirementAge st))
      else monthlyExpenseAtRetirement r * 12 *
           ((1 - (1 + ((1 + postRetirementROI st) / (1 + assumedInflation st / 100) - 1)) powi
                   (- max 0 (lifeExpectancy st - retirementAge st))) /
            ((1 + postRetirementROI st) / (1 + assumedInflation st / 100) - 1)))"
  using assms
  by (auto simp: calculateRetirementMetrics_def Let_def js_div_def Math_pow_def
           split: if_splits Option.bind_splits)



lemma calc_returns:
  assumes "assumedInflation st \<noteq> - 100"
    and "retirementAge st < lifeExpectancy st \<Longrightarrow> postRetirementROI st \<noteq> - 1"
  shows "\<exists>r. calculateRetirementMetrics st = Some r"
proof -
  have i: "1 + assumedInflation st / 100 \<noteq> 0"
    using assms(1) by (simp add: field_simps)
  have "1 + postRetirementROI st \<noteq> 0" if "retirementAge st < lifeExpectancy st"
    using assms(2)[OF that] by (simp add: add_eq_0_iff)
  then show ?thesis using i
    by (auto simp: calculateRetirementMetrics_def Let_def js_div_def Math_pow_def
           split: if_splits Option.bind_splits)
qed

subsection \<open>Evaluating the engine on the concrete inputs\<close>






subsection \<open>The chart loop computes the trajectory\<close>









subsection \<open>The annuity factor as a geometric sum\<close>







section \<open>The claims\<close>





text \<open>
  C2. For the scenario of the specification (current age 45, retirement at 55, life expectancy
  85, monthly expenses 100000, lifestyle factor 1, savings 5000000, inflation 6 per cent, ROI
  0.08) the engine returns a result with 10 years to retirement, 30 years in retirement, a
  monthly expense at retirement of \<open>100000 * 1.06 ^ 10\<close>, a required corpus of
  \<open>(12 * monthlyExpenseAtRetirement) * (1 - (1 + realRate) ^ (-30)) / realRate\<close> for
  \<open>realRate = 1.08 / 1.06 - 1\<close>, and projected savings of \<open>5000000 * 1.10 ^ 10\<close>. Rounded
  to whole rupees, the monthly expense is 179085 and the projected savings are 12968712.
\<close>

theorem concrete_scenario:
  "\<exists>r. calculateRetirementMetrics scenario = Some r \<and>
       yearsToRetirement r = 10 \<and>
       yearsInRetirement r = 30 \<and>
       monthlyExpenseAtRetirement r = 100000 * 1.06 ^ 10 \<and>
       requiredCorpus r =
         (12 * monthlyExpenseAtRetirement r) * (1 - (1 + (1.08 / 1.06 - 1)) powi (- 30)) /
         (1.08 / 1.06 - 1) \<and>
       projectedExistingSavings r = 5000000 * 1.10 ^ 10 \<and>
       round (monthlyExpenseAtRetirement r) = 179085 \<and>
       round (projectedExistingSavings r) = 12968712"
proof -
  obtain r where r: "calculateRetirementMetrics scenario = Some r"
    using calc_returns[of scenario] by (auto simp: scenario_def)
  have ytr: "yearsToRetirement r = 10" and yir: "yearsInRetirement r = 30"
    using calc_Some_fields(1,2)[OF r] by (simp_all add: scenario_def)
  have m: "monthlyExpenseAtRetirement r = 100000 * 1.06 ^ 10"
    using calc_Some_fields(3)[OF r] by (simp add: scenario_def)
  have p: "projectedExistingSavings r = 5000000 * 1.10 ^ 10"
    using calc_Some_fields(4)[OF r] by (simp add: scenario_def)
  have guard: "\<not> \<bar>(1 + 0.08) / (1 + 6 / 100) - 1\<bar> < (0.0001::real)"
    by simp
  have c: "requiredCorpus r =
         (12 * monthlyExpenseAtRetirement r) * (1 - (1 + (1.08 / 1.06 - 1)) powi (- 30)) /
         (1.08 / 1.06 - 1)"
    using calc_Some_requiredCorpus[OF r] guard by (simp add: scenario_def)
  have rm: "round (monthlyExpenseAtRetirement r) = 179085"
    unfolding m by (simp add: round_def power_divide)
  have rp: "round (projectedExistingSavings r) = 12968712"
    unfolding p by (simp add: round_def power_divide)
  from r ytr yir m c p rm rp show ?thesis by blast
qed





subsection \<open>The shape of the chart\<close>












text \<open>
  C9. \<^verbatim>\<open>formatINR\<close> renders NaN as the zero display, the rupee sign followed by \<open>0\<close>. The
  two infinities are not caught by its \<^verbatim>\<open>isNaN\<close> test: they are handed to the number
  formatter and come out as the rupee sign followed by the infinity sign, with a leading
  minus sign for the negative one.
\<close>

theorem formatINR_nonfinite:
  "formatINR NaN = rupee @ ''0'' \<and>
   formatINR PosInfinity = rupee @ infinity_sign \<and>
   formatINR NegInfinity = ''-'' @ rupee @ infinity_sign"
  by (simp add: formatINR_def isNaN_def Intl_NumberFormat_format_def)

theorem formatINR_infinity_counterexample:
  "formatINR PosInfinity = [CHR 0xE2, CHR 0x82, CHR 0xB9, CHR 0xE2, CHR 0x88, CHR 0x9E] \<and>
   formatINR PosInfinity \<noteq> [CHR 0xE2, CHR 0x82, CHR 0xB9, CHR ''0'']"
  by (simp add: formatINR_def isNaN_def Intl_NumberFormat_format_def rupee_def infinity_sign_def)

end
